theory Spec2Isabelle
  imports Complex_Main "HOL-Library.AList" "HOL-Library.Multiset" "HOL-Library.Sublist"
begin

section \<open>Python values and errors\<close>

text \<open>
  Python floats and ints of the country table are modelled as exact reals: every
  arithmetic step below is the exact operation, not its IEEE-754 rounding.
  Exceptions are values of \<open>py_error\<close>; a function that can raise returns
  \<open>py_error + 'a\<close> with \<open>Inl\<close> for the exception.
\<close>

datatype py_error = KeyError | IndexError | Exception string

text \<open>
  One entry of \<open>country_revenue_data\<close>: a dict from key names to values. The numeric
  keys and the list-valued keys are kept in two maps, so that a key can be absent
  (as \<open>"cpm"\<close> is in the Australia entry) but cannot hold a value of the wrong type.
\<close>

record country_data =
  nums :: "string \<rightharpoonup> real"
  lists :: "string \<rightharpoonup> string list"

text \<open>The empty dict \<open>{}\<close>.\<close>

definition empty_data :: country_data where
  "empty_data = \<lparr>nums = Map.empty, lists = Map.empty\<rparr>"

text \<open>\<open>data.get(k, d)\<close> on a numeric key and on a list key; \<open>data[k]\<close> on a numeric key.\<close>

definition get_num :: "country_data \<Rightarrow> string \<Rightarrow> real \<Rightarrow> real" where
  "get_num data k d = (case nums data k of None \<Rightarrow> d | Some v \<Rightarrow> v)"

definition get_list :: "country_data \<Rightarrow> string \<Rightarrow> string list \<Rightarrow> string list" where
  "get_list data k d = (case lists data k of None \<Rightarrow> d | Some v \<Rightarrow> v)"

definition item_num :: "country_data \<Rightarrow> string \<Rightarrow> py_error + real" where
  "item_num data k = (case nums data k of None \<Rightarrow> Inl KeyError | Some v \<Rightarrow> Inr v)"

text \<open>
  The country table is a dict whose iteration order is its insertion order: an
  association list. \<open>self.country_revenue_data.get(country, {})\<close> is \<open>lookup_country\<close>.
\<close>

type_synonym country_table = "(string \<times> country_data) list"

definition lookup_country :: "country_table \<Rightarrow> string \<Rightarrow> country_data" where
  "lookup_country tbl country = (case map_of tbl country of None \<Rightarrow> empty_data | Some d \<Rightarrow> d)"

section \<open>The built-in table of \<open>RevenueOptimizer.__init__\<close>\<close>

definition usa_data :: country_data where
  "usa_data = \<lparr>
     nums = [''cpm'' \<mapsto> 12.5, ''ad_click_rate'' \<mapsto> 0.08, ''affiliate_conversion'' \<mapsto> 0.035,
             ''purchasing_power'' \<mapsto> 9.5, ''market_size'' \<mapsto> 10.0, ''competition'' \<mapsto> 8.5,
             ''monthly_potential'' \<mapsto> 15000],
     lists = [''top_affiliate_categories'' \<mapsto> [''tech'', ''finance'', ''health'', ''insurance'', ''investment''],
              ''ad_networks'' \<mapsto> [''Google AdSense'', ''Media.net'', ''Amazon Associates''],
              ''premium_keywords'' \<mapsto> [''insurance'', ''mortgage'', ''credit card'', ''investment'', ''lawyer'']]\<rparr>"

definition germany_data :: country_data where
  "germany_data = \<lparr>
     nums = [''cpm'' \<mapsto> 8.7, ''ad_click_rate'' \<mapsto> 0.06, ''affiliate_conversion'' \<mapsto> 0.028,
             ''purchasing_power'' \<mapsto> 8.9, ''market_size'' \<mapsto> 8.5, ''competition'' \<mapsto> 7.2,
             ''monthly_potential'' \<mapsto> 10500],
     lists = [''top_affiliate_categories'' \<mapsto> [''automotive'', ''tech'', ''finance'', ''insurance''],
              ''ad_networks'' \<mapsto> [''Google AdSense'', ''Zanox'', ''Amazon Associates''],
              ''premium_keywords'' \<mapsto> [''versicherung'', ''kredit'', ''auto'', ''technologie'', ''investition'']]\<rparr>"

definition uk_data :: country_data where
  "uk_data = \<lparr>
     nums = [''cpm'' \<mapsto> 9.1, ''ad_click_rate'' \<mapsto> 0.075, ''affiliate_conversion'' \<mapsto> 0.032,
             ''purchasing_power'' \<mapsto> 8.7, ''market_size'' \<mapsto> 7.8, ''competition'' \<mapsto> 8.0,
             ''monthly_potential'' \<mapsto> 9800],
     lists = [''top_affiliate_categories'' \<mapsto> [''finance'', ''property'', ''insurance'', ''tech''],
              ''ad_networks'' \<mapsto> [''Google AdSense'', ''Amazon Associates'', ''Commission Junction''],
              ''premium_keywords'' \<mapsto> [''mortgage'', ''insurance'', ''investment'', ''property'', ''credit'']]\<rparr>"

definition canada_data :: country_data where
  "canada_data = \<lparr>
     nums = [''cpm'' \<mapsto> 8.9, ''ad_click_rate'' \<mapsto> 0.07, ''affiliate_conversion'' \<mapsto> 0.03,
             ''purchasing_power'' \<mapsto> 8.3, ''market_size'' \<mapsto> 6.5, ''competition'' \<mapsto> 6.8,
             ''monthly_potential'' \<mapsto> 8200],
     lists = [''top_affiliate_categories'' \<mapsto> [''finance'', ''outdoor'', ''tech'', ''insurance''],
              ''ad_networks'' \<mapsto> [''Google AdSense'', ''Amazon Associates'', ''ShareASale''],
              ''premium_keywords'' \<mapsto> [''insurance'', ''mortgage'', ''investment'', ''outdoor'', ''winter'']]\<rparr>"

definition singapore_data :: country_data where
  "singapore_data = \<lparr>
     nums = [''cpm'' \<mapsto> 8.3, ''ad_click_rate'' \<mapsto> 0.065, ''affiliate_conversion'' \<mapsto> 0.038,
             ''purchasing_power'' \<mapsto> 8.8, ''market_size'' \<mapsto> 5.2, ''competition'' \<mapsto> 7.5,
             ''monthly_potential'' \<mapsto> 7500],
     lists = [''top_affiliate_categories'' \<mapsto> [''luxury'', ''finance'', ''property'', ''tech''],
              ''ad_networks'' \<mapsto> [''Google AdSense'', ''Amazon Associates'', ''Commission Factory''],
              ''premium_keywords'' \<mapsto> [''property'', ''investment'', ''luxury'', ''finance'', ''premium'']]\<rparr>"

text \<open>The Australia entry has the key \<open>"cmp"\<close> where the others have \<open>"cpm"\<close>.\<close>

definition australia_data :: country_data where
  "australia_data = \<lparr>
     nums = [''cmp'' \<mapsto> 7.8, ''ad_click_rate'' \<mapsto> 0.068, ''affiliate_conversion'' \<mapsto> 0.029,
             ''purchasing_power'' \<mapsto> 7.9, ''market_size'' \<mapsto> 6.0, ''competition'' \<mapsto> 6.2,
             ''monthly_potential'' \<mapsto> 6800],
     lists = [''top_affiliate_categories'' \<mapsto> [''outdoor'', ''property'', ''finance'', ''tech''],
              ''ad_networks'' \<mapsto> [''Google AdSense'', ''Amazon Associates'', ''Commission Factory''],
              ''premium_keywords'' \<mapsto> [''property'', ''investment'', ''outdoor'', ''insurance'', ''finance'']]\<rparr>"

text \<open>The Japanese and Korean keywords are written as their UTF-8 bytes.\<close>

definition japan_data :: country_data where
  "japan_data = \<lparr>
     nums = [''cpm'' \<mapsto> 7.2, ''ad_click_rate'' \<mapsto> 0.055, ''affiliate_conversion'' \<mapsto> 0.025,
             ''purchasing_power'' \<mapsto> 8.1, ''market_size'' \<mapsto> 8.0, ''competition'' \<mapsto> 9.0,
             ''monthly_potential'' \<mapsto> 6200],
     lists = [''top_affiliate_categories'' \<mapsto> [''tech'', ''beauty'', ''fashion'', ''finance''],
              ''ad_networks'' \<mapsto> [''Google AdSense'', ''Amazon Associates'', ''A8.net''],
              ''premium_keywords'' \<mapsto>
                [[CHR 0xE4, CHR 0xBF, CHR 0x9D, CHR 0xE9, CHR 0x99, CHR 0xBA],
                 [CHR 0xE6, CHR 0x8A, CHR 0x95, CHR 0xE8, CHR 0xB3, CHR 0x87],
                 [CHR 0xE6, CHR 0x8A, CHR 0x80, CHR 0xE8, CHR 0xA1, CHR 0x93],
                 [CHR 0xE7, CHR 0xBE, CHR 0x8E, CHR 0xE5, CHR 0xAE, CHR 0xB9],
                 [CHR 0xE3, CHR 0x83, CHR 0x95, CHR 0xE3, CHR 0x82, CHR 0xA1, CHR 0xE3, CHR 0x83, CHR 0x83,
                  CHR 0xE3, CHR 0x82, CHR 0xB7, CHR 0xE3, CHR 0x83, CHR 0xA7, CHR 0xE3, CHR 0x83, CHR 0xB3]]]\<rparr>"

definition korea_data :: country_data where
  "korea_data = \<lparr>
     nums = [''cpm'' \<mapsto> 6.2, ''ad_click_rate'' \<mapsto> 0.045, ''affiliate_conversion'' \<mapsto> 0.022,
             ''purchasing_power'' \<mapsto> 7.2, ''market_size'' \<mapsto> 6.8, ''competition'' \<mapsto> 8.5,
             ''monthly_potential'' \<mapsto> 4500],
     lists = [''top_affiliate_categories'' \<mapsto> [''beauty'', ''tech'', ''fashion'', ''food''],
              ''ad_networks'' \<mapsto> [''Google AdSense'', ''Coupang Partners'', ''Amazon Associates''],
              ''premium_keywords'' \<mapsto>
                [[CHR 0xEB, CHR 0xB3, CHR 0xB4, CHR 0xED, CHR 0x97, CHR 0x98],
                 [CHR 0xED, CHR 0x88, CHR 0xAC, CHR 0xEC, CHR 0x9E, CHR 0x90],
                 [CHR 0xEB, CHR 0xB7, CHR 0xB0, CHR 0xED, CHR 0x8B, CHR 0xB0],
                 [CHR 0xEA, CHR 0xB8, CHR 0xB0, CHR 0xEC, CHR 0x88, CHR 0xA0],
                 [CHR 0xED, CHR 0x8C, CHR 0xA8, CHR 0xEC, CHR 0x85, CHR 0x98]]]\<rparr>"

definition country_revenue_data :: country_table where
  "country_revenue_data =
     [(''USA'', usa_data), (''Germany'', germany_data), (''UK'', uk_data),
      (''Canada'', canada_data), (''Singapore'', singapore_data),
      (''Australia'', australia_data), (''Japan'', japan_data), (''Korea'', korea_data)]"

section \<open>Country ranking\<close>

text \<open>The score computed in the loop body of \<open>_rank_countries_by_revenue\<close>.\<close>

definition revenue_score :: "country_data \<Rightarrow> real" where
  "revenue_score data =
     get_num data ''cpm'' 0 * 0.3 +
     get_num data ''purchasing_power'' 0 * 0.25 +
     get_num data ''market_size'' 0 * 0.2 +
     (10 - get_num data ''competition'' 5) * 0.15 +
     get_num data ''ad_click_rate'' 0 * 100 * 0.1"

text \<open>
  \<open>country_scores[country] = revenue_score\<close> for every item of the table, in order:
  a dict assignment keeps the position of a key that is already there and appends a
  new key, which is \<open>AList.update\<close>.
\<close>

definition country_scores :: "country_table \<Rightarrow> (string \<times> real) list" where
  "country_scores tbl =
     foldl (\<lambda>scores (country, data). AList.update country (revenue_score data) scores) [] tbl"

text \<open>
  \<open>sorted(xs, key=key, reverse=True)\<close>: descending in the key, and stable (elements
  with equal keys keep their order), as Python's reverse sort is.
\<close>

definition sorted_reverse :: "('a \<Rightarrow> real) \<Rightarrow> 'a list \<Rightarrow> 'a list" where
  "sorted_reverse key xs = sort_key (\<lambda>x. - key x) xs"

text \<open>
  \<open>country_scores[x]\<close> in the sort key: the key is always one of
  \<open>country_scores.keys()\<close>, so the lookup cannot raise.
\<close>

definition score_lookup :: "(string \<times> real) list \<Rightarrow> string \<Rightarrow> real" where
  "score_lookup scores x = (case map_of scores x of None \<Rightarrow> 0 | Some v \<Rightarrow> v)"

definition rank_countries_by_revenue :: "country_table \<Rightarrow> string list" where
  "rank_countries_by_revenue tbl =
     (let scores = country_scores tbl
      in sorted_reverse (score_lookup scores) (map fst scores))"

text \<open>
  \<open>sort_countries_by_revenue\<close> reads the attribute \<open>self.top_countries\<close>, which
  \<open>__init__\<close> and \<open>initialize_country_rankings\<close> set to the ranking of the table.
\<close>

definition sort_countries_by_revenue :: "string list \<Rightarrow> string list \<Rightarrow> string list" where
  "sort_countries_by_revenue top_countries countries =
     [country \<leftarrow> top_countries. country \<in> set countries]"


section \<open>Strings\<close>

text \<open>
  \<open>str.lower()\<close> on ASCII text: the letters \<open>A\<close> to \<open>Z\<close> are mapped to \<open>a\<close> to \<open>z\<close>
  and every other byte is kept.
\<close>

definition lower_char :: "char \<Rightarrow> char" where
  "lower_char c =
     (case map_of (zip ''ABCDEFGHIJKLMNOPQRSTUVWXYZ'' ''abcdefghijklmnopqrstuvwxyz'') c of
        None \<Rightarrow> c | Some l \<Rightarrow> l)"

definition lower :: "string \<Rightarrow> string" where
  "lower s = map lower_char s"

text \<open>\<open>s.startswith(p)\<close>, the substring test \<open>w in s\<close> and \<open>s.split(sep)\<close> for a one-character separator.\<close>

fun startswith :: "string \<Rightarrow> string \<Rightarrow> bool" where
  "startswith s [] = True"
| "startswith [] (p # ps) = False"
| "startswith (c # cs) (p # ps) = (c = p \<and> startswith cs ps)"

fun contains :: "string \<Rightarrow> string \<Rightarrow> bool" where
  "contains [] w = (w = [])"
| "contains (c # cs) w = (startswith (c # cs) w \<or> contains cs w)"

fun py_split :: "char \<Rightarrow> string \<Rightarrow> string list" where
  "py_split sep [] = [[]]"
| "py_split sep (c # cs) =
     (if c = sep then [] # py_split sep cs
      else (case py_split sep cs of [] \<Rightarrow> [[c]] | l # ls \<Rightarrow> (c # l) # ls))"

section \<open>Monetization spots\<close>

text \<open>
  A spot is a dict with string keys; its values are strings, ints, floats or lists of
  strings.
\<close>

datatype spot_value = SStr string | SInt int | SNum real | SList "string list"

type_synonym spot = "string \<rightharpoonup> spot_value"

text \<open>
  The loop \<open>for i, line in enumerate(lines)\<close> of \<open>_identify_monetization_opportunities\<close>,
  started at index \<open>i\<close>: three independent checks per line, each appending a spot.
\<close>

fun scan_lines :: "nat \<Rightarrow> string list \<Rightarrow> spot list" where
  "scan_lines i [] = []"
| "scan_lines i (line # rest) =
     (if list_ex (\<lambda>word. contains (lower line) word)
           [''product'', ''tool'', ''service'', ''option'', ''solution'']
      then [[''type'' \<mapsto> SStr ''affiliate_link'', ''position'' \<mapsto> SInt (int i),
             ''context'' \<mapsto> SStr ''product_mention'', ''revenue_potential'' \<mapsto> SStr ''high'']]
      else []) @
     (if startswith line ''##'' \<and> i > 0
      then [[''type'' \<mapsto> SStr ''display_ad'', ''position'' \<mapsto> SInt (int i),
             ''context'' \<mapsto> SStr ''section_break'', ''revenue_potential'' \<mapsto> SStr ''medium'']]
      else []) @
     (if list_ex (\<lambda>word. contains (lower line) word)
           [''vs'', ''compare'', ''comparison'', ''alternative'']
      then [[''type'' \<mapsto> SStr ''comparison_table'', ''position'' \<mapsto> SInt (int i),
             ''context'' \<mapsto> SStr ''comparison_section'', ''revenue_potential'' \<mapsto> SStr ''very_high'']]
      else []) @
     scan_lines (Suc i) rest"

definition identify_monetization_opportunities :: "string \<Rightarrow> spot list" where
  "identify_monetization_opportunities content = scan_lines 0 (py_split (CHR 0x0A) content)"

text \<open>The three-line body \<open>"# Title\n## Best tool options\nThis is a great product for you"\<close>.\<close>

definition title_tool_product_body :: string where
  "title_tool_product_body =
     ''# Title'' @ [CHR 0x0A] @ ''## Best tool options'' @ [CHR 0x0A]
       @ ''This is a great product for you''"

section \<open>Monetization optimisation\<close>

text \<open>
  \<open>_optimize_monetization_spot\<close>. \<open>spot.copy()\<close> is the map itself, an assignment
  \<open>optimized_spot[k] = v\<close> is a map update, and the subscript \<open>spot["type"]\<close> raises
  \<open>KeyError\<close> when the key is absent.
\<close>

definition optimize_monetization_spot :: "spot \<Rightarrow> country_data \<Rightarrow> py_error + spot" where
  "optimize_monetization_spot spot data =
     (let optimized_spot = spot;
          cpm = get_num data ''cpm'' 5.0
      in case spot ''type'' of
           None \<Rightarrow> Inl KeyError
         | Some ty \<Rightarrow>
             (let optimized_spot =
                (if ty = SStr ''display_ad'' then
                   (if cpm > 10 then
                      optimized_spot(''ad_size'' \<mapsto> SStr ''premium_banner'', ''priority'' \<mapsto> SStr ''high'')
                    else if cpm > 7 then
                      optimized_spot(''ad_size'' \<mapsto> SStr ''standard_banner'', ''priority'' \<mapsto> SStr ''medium'')
                    else
                      optimized_spot(''ad_size'' \<mapsto> SStr ''text_ad'', ''priority'' \<mapsto> SStr ''low''))
                 else if ty = SStr ''affiliate_link'' then
                   optimized_spot(
                     ''recommended_categories'' \<mapsto>
                        SList (take 3 (get_list data ''top_affiliate_categories'' [])),
                     ''conversion_rate'' \<mapsto> SNum (get_num data ''affiliate_conversion'' 0.02))
                 else optimized_spot)
              in Inr (if cpm > 8 then optimized_spot(''placement'' \<mapsto> SStr ''above_fold'')
                      else optimized_spot(''placement'' \<mapsto> SStr ''within_content''))))"

text \<open>
  The spot loop of \<open>add_monetization\<close>: every spot is optimized in turn and appended to
  \<open>optimized_spots\<close>; the first exception ends the loop.
\<close>

fun optimize_spots :: "spot list \<Rightarrow> country_data \<Rightarrow> py_error + spot list" where
  "optimize_spots [] data = Inr []"
| "optimize_spots (spot # rest) data =
     (case optimize_monetization_spot spot data of
        Inl e \<Rightarrow> Inl e
      | Inr optimized_spot \<Rightarrow>
          (case optimize_spots rest data of
             Inl e \<Rightarrow> Inl e
           | Inr optimized_spots \<Rightarrow> Inr (optimized_spot # optimized_spots)))"

section \<open>Revenue prediction\<close>

text \<open>
  \<open>round(x, n)\<close>: the nearest multiple of \<open>10^-n\<close>, a tie going to the even one.
\<close>

definition round_half_even :: "real \<Rightarrow> int" where
  "round_half_even x =
     (let f = \<lfloor>x\<rfloor>; d = x - of_int f
      in if d < 1 / 2 then f else if d > 1 / 2 then f + 1 else if even f then f else f + 1)"

definition py_round :: "real \<Rightarrow> nat \<Rightarrow> real" where
  "py_round x n = of_int (round_half_even (x * 10 ^ n)) / 10 ^ n"

text \<open>
  A content record: the keys of the content dict that the optimizer reads or writes.
  \<open>monetization_spots\<close> may be absent (\<open>"monetization_spots" in content\<close>), as are
  the keys that later stages add.
\<close>

record content =
  title :: string
  content_text :: string
  meta_description :: string
  tags :: "string list"
  monetization_spots :: "spot list option"
  seo_score :: int
  premium_keywords :: "string list option"
  recommended_ad_networks :: "string list option"
  revenue_prediction :: "(string \<rightharpoonup> real) option"
  full_html :: "string option"

text \<open>
  \<open>_calculate_revenue_prediction\<close>. The returned dict is a map from its keys to
  numbers; the key \<open>updated_at\<close> (the wall-clock time) is left out. The arithmetic of
  the \<open>try\<close> block cannot raise on numbers, so its \<open>except\<close> branch is not reached.
\<close>

definition calculate_revenue_prediction :: "content \<Rightarrow> country_data \<Rightarrow> (string \<rightharpoonup> real)" where
  "calculate_revenue_prediction c data =
     (let estimated_monthly_views = 10000;
          cpm = get_num data ''cpm'' 5.0;
          click_rate = get_num data ''ad_click_rate'' 0.05;
          conversion_rate = get_num data ''affiliate_conversion'' 0.02;
          ad_revenue = (estimated_monthly_views * cpm) / 1000;
          affiliate_clicks = estimated_monthly_views * click_rate;
          affiliate_revenue = affiliate_clicks * conversion_rate * 50;
          total_revenue = ad_revenue + affiliate_revenue
      in [''monthly_ad_revenue'' \<mapsto> py_round ad_revenue 2,
          ''monthly_affiliate_revenue'' \<mapsto> py_round affiliate_revenue 2,
          ''total_monthly_revenue'' \<mapsto> py_round total_revenue 2,
          ''estimated_views'' \<mapsto> estimated_monthly_views,
          ''cpm'' \<mapsto> cpm])"

text \<open>
  \<open>add_monetization\<close>: the \<open>try\<close> block, then the whole function, whose \<open>except\<close>
  branch returns the content unchanged.
\<close>

definition add_monetization_try :: "country_table \<Rightarrow> content \<Rightarrow> string \<Rightarrow> py_error + content" where
  "add_monetization_try tbl c country =
     (let data = lookup_country tbl country;
          monetized_content = c
      in case (case monetization_spots c of
                 None \<Rightarrow> Inr monetized_content
               | Some spots \<Rightarrow>
                   (case optimize_spots spots data of
                      Inl e \<Rightarrow> Inl e
                    | Inr optimized_spots \<Rightarrow>
                        Inr (monetized_content\<lparr>monetization_spots := Some optimized_spots\<rparr>)))
         of Inl e \<Rightarrow> Inl e
          | Inr monetized_content \<Rightarrow>
              Inr (monetized_content\<lparr>
                     premium_keywords := Some (get_list data ''premium_keywords'' []),
                     recommended_ad_networks := Some (get_list data ''ad_networks'' []),
                     revenue_prediction := Some (calculate_revenue_prediction c data)\<rparr>))"

definition add_monetization :: "country_table \<Rightarrow> content \<Rightarrow> string \<Rightarrow> py_error + content" where
  "add_monetization tbl c country =
     (case add_monetization_try tbl c country of Inl e \<Rightarrow> Inr c | Inr monetized_content \<Rightarrow> Inr monetized_content)"

section \<open>Revenue insights\<close>

text \<open>
  \<open>get_revenue_insights\<close> reads the table with subscripts (\<open>data["monthly_potential"]\<close>,
  \<open>data["cpm"]\<close>, \<open>data["competition"]\<close>), which raise \<open>KeyError\<close> on a missing key, and
  \<open>self.top_countries[0]\<close>, which raises \<open>IndexError\<close> on an empty list. The constant
  list \<open>optimization_tips\<close> is left out of the result.
\<close>

record insights =
  total_market_potential :: real
  top_revenue_country :: string
  recommended_focus_countries :: "string list"
  high_cpm_countries :: "string list"
  low_competition_countries :: "string list"

fun sum_monthly_potential :: "country_table \<Rightarrow> py_error + real" where
  "sum_monthly_potential [] = Inr 0"
| "sum_monthly_potential ((country, data) # rest) =
     (case item_num data ''monthly_potential'' of
        Inl e \<Rightarrow> Inl e
      | Inr v \<Rightarrow> (case sum_monthly_potential rest of Inl e \<Rightarrow> Inl e | Inr s \<Rightarrow> Inr (v + s)))"

text \<open>\<open>[country for country, data in table.items() if cond(data)]\<close> with a condition that can raise.\<close>

fun countries_where :: "(country_data \<Rightarrow> py_error + bool) \<Rightarrow> country_table \<Rightarrow> py_error + string list" where
  "countries_where cond [] = Inr []"
| "countries_where cond ((country, data) # rest) =
     (case cond data of
        Inl e \<Rightarrow> Inl e
      | Inr b \<Rightarrow>
          (case countries_where cond rest of
             Inl e \<Rightarrow> Inl e
           | Inr cs \<Rightarrow> Inr (if b then country # cs else cs)))"

definition get_revenue_insights :: "country_table \<Rightarrow> string list \<Rightarrow> py_error + insights" where
  "get_revenue_insights tbl top_countries =
     (case sum_monthly_potential tbl of
        Inl e \<Rightarrow> Inl e
      | Inr total_potential \<Rightarrow>
     (case top_countries of
        [] \<Rightarrow> Inl IndexError
      | first # _ \<Rightarrow>
     (case countries_where
             (\<lambda>data. case item_num data ''cpm'' of Inl e \<Rightarrow> Inl e | Inr v \<Rightarrow> Inr (v > 8.0)) tbl of
        Inl e \<Rightarrow> Inl e
      | Inr high \<Rightarrow>
     (case countries_where
             (\<lambda>data. case item_num data ''competition'' of Inl e \<Rightarrow> Inl e | Inr v \<Rightarrow> Inr (v < 7.0)) tbl of
        Inl e \<Rightarrow> Inl e
      | Inr low \<Rightarrow>
          Inr \<lparr>total_market_potential = total_potential,
               top_revenue_country = first,
               recommended_focus_countries = take 3 top_countries,
               high_cpm_countries = high,
               low_competition_countries = low\<rparr>))))"

text \<open>Three spots, one of each type the detector emits.\<close>

definition example_spots :: "spot list" where
  "example_spots =
     [[''type'' \<mapsto> SStr ''display_ad'', ''position'' \<mapsto> SInt 1,
       ''context'' \<mapsto> SStr ''section_break'', ''revenue_potential'' \<mapsto> SStr ''medium''],
      [''type'' \<mapsto> SStr ''affiliate_link'', ''position'' \<mapsto> SInt 2,
       ''context'' \<mapsto> SStr ''product_mention'', ''revenue_potential'' \<mapsto> SStr ''high''],
      [''type'' \<mapsto> SStr ''comparison_table'', ''position'' \<mapsto> SInt 3,
       ''context'' \<mapsto> SStr ''comparison_section'', ''revenue_potential'' \<mapsto> SStr ''very_high'']]"

text \<open>A content record with the three example spots, a profile with round numbers, and a content record whose only spot has no \<open>type\<close> key.\<close>

definition example_content :: content where
  "example_content =
     \<lparr>title = ''Guide'', content_text = ''text'', meta_description = ''about'', tags = [''guide''],
      monetization_spots = Some example_spots, seo_score = 60, premium_keywords = None,
      recommended_ad_networks = None, revenue_prediction = None, full_html = None\<rparr>"


definition untyped_spot_content :: content where
  "untyped_spot_content =
     example_content\<lparr>monetization_spots := Some [[''position'' \<mapsto> SInt 0]]\<rparr>"

section \<open>The content pipeline\<close>




































section \<open>Properties of the ranking\<close>

lemma set_sorted_reverse: "set (sorted_reverse key xs) = set xs"
  by (simp add: sorted_reverse_def)

lemma update_keys: "fst ` set (AList.update c v acc) = insert c (fst ` set acc)"
  by (induction acc) auto

lemma country_scores_keys_aux:
  "fst ` set (foldl (\<lambda>scores (country, data). AList.update country (f data) scores) acc tbl)
     = fst ` set acc \<union> fst ` set tbl"
proof (induction tbl arbitrary: acc)
  case Nil
  then show ?case by simp
next
  case (Cons p tbl)
  obtain c d where p: "p = (c, d)" by (cases p)
  show ?case using Cons.IH [of "AList.update c (f d) acc"] p by (simp add: update_keys)
qed

lemma set_rank_countries: "set (rank_countries_by_revenue tbl) = fst ` set tbl"
  by (simp add: rank_countries_by_revenue_def Let_def set_sorted_reverse country_scores_def
      country_scores_keys_aux)

text \<open>
  C2. \<open>sort_countries_by_revenue\<close> returns exactly the countries that are both ranked
  and requested, in ranked order (it is the ranked list with the unrequested countries
  removed, so a subsequence of it); a requested country that is not in the profile
  table is dropped and no country outside the profile table is returned; on ranked
  \<open>[A, B, C]\<close> and requested \<open>[C, A]\<close> the result is \<open>[A, C]\<close>.
\<close>

theorem sort_countries_by_revenue_filter:
  "set (sort_countries_by_revenue ranked requested) = set ranked \<inter> set requested
   \<and> subseq (sort_countries_by_revenue ranked requested) ranked
   \<and> sort_countries_by_revenue ranked requested = filter (\<lambda>c. c \<in> set requested) ranked
   \<and> set (sort_countries_by_revenue (rank_countries_by_revenue tbl) requested)
        = fst ` set tbl \<inter> set requested
   \<and> sort_countries_by_revenue [''A'', ''B'', ''C''] [''C'', ''A''] = [''A'', ''C'']"
proof (intro conjI)
  show "set (sort_countries_by_revenue ranked requested) = set ranked \<inter> set requested"
    by (auto simp add: sort_countries_by_revenue_def)
  show "subseq (sort_countries_by_revenue ranked requested) ranked"
    by (simp add: sort_countries_by_revenue_def)
  show "sort_countries_by_revenue ranked requested = filter (\<lambda>c. c \<in> set requested) ranked"
    by (simp add: sort_countries_by_revenue_def)
  show "set (sort_countries_by_revenue (rank_countries_by_revenue tbl) requested)
          = fst ` set tbl \<inter> set requested"
    by (auto simp add: sort_countries_by_revenue_def set_rank_countries)
  show "sort_countries_by_revenue [''A'', ''B'', ''C''] [''C'', ''A''] = [''A'', ''C'']"
    by (simp add: sort_countries_by_revenue_def)
qed












section \<open>Properties of spot detection\<close>

lemma title_tool_product_body_lines:
  "py_split (CHR 0x0A) title_tool_product_body
     = [''# Title'', ''## Best tool options'', ''This is a great product for you'']"
  by (simp add: title_tool_product_body_def)

lemma scan_title_tool_product:
  "scan_lines 0 [''# Title'', ''## Best tool options'', ''This is a great product for you'']
     = [[''type'' \<mapsto> SStr ''affiliate_link'', ''position'' \<mapsto> SInt 1,
         ''context'' \<mapsto> SStr ''product_mention'', ''revenue_potential'' \<mapsto> SStr ''high''],
        [''type'' \<mapsto> SStr ''display_ad'', ''position'' \<mapsto> SInt 1,
         ''context'' \<mapsto> SStr ''section_break'', ''revenue_potential'' \<mapsto> SStr ''medium''],
        [''type'' \<mapsto> SStr ''affiliate_link'', ''position'' \<mapsto> SInt 2,
         ''context'' \<mapsto> SStr ''product_mention'', ''revenue_potential'' \<mapsto> SStr ''high'']]"
  by (simp add: lower_def lower_char_def)

text \<open>
  C3 (as amended). On the body \<open>["# Title", "## Best tool options", "This is a great
  product for you"]\<close> the detector yields exactly three spots, in this order: an
  \<open>affiliate_link\<close> at position 1 (the heading line contains \<open>tool\<close>), a \<open>display_ad\<close>
  at position 1 and an \<open>affiliate_link\<close> at position 2; there is no spot at position 0.
\<close>

theorem identify_monetization_opportunities_example:
  "identify_monetization_opportunities title_tool_product_body
     = [[''type'' \<mapsto> SStr ''affiliate_link'', ''position'' \<mapsto> SInt 1,
         ''context'' \<mapsto> SStr ''product_mention'', ''revenue_potential'' \<mapsto> SStr ''high''],
        [''type'' \<mapsto> SStr ''display_ad'', ''position'' \<mapsto> SInt 1,
         ''context'' \<mapsto> SStr ''section_break'', ''revenue_potential'' \<mapsto> SStr ''medium''],
        [''type'' \<mapsto> SStr ''affiliate_link'', ''position'' \<mapsto> SInt 2,
         ''context'' \<mapsto> SStr ''product_mention'', ''revenue_potential'' \<mapsto> SStr ''high'']]"
  unfolding identify_monetization_opportunities_def title_tool_product_body_lines
  by (rule scan_title_tool_product)

text \<open>
  C3 as stated fails: the detector does not yield exactly the two spots
  \<open>display_ad\<close> at 1 and \<open>affiliate_link\<close> at 2. It yields three spots, and two of
  them are at position 1.
\<close>

theorem identify_monetization_opportunities_not_two_spots:
  "identify_monetization_opportunities title_tool_product_body
     \<noteq> [[''type'' \<mapsto> SStr ''display_ad'', ''position'' \<mapsto> SInt 1,
          ''context'' \<mapsto> SStr ''section_break'', ''revenue_potential'' \<mapsto> SStr ''medium''],
         [''type'' \<mapsto> SStr ''affiliate_link'', ''position'' \<mapsto> SInt 2,
          ''context'' \<mapsto> SStr ''product_mention'', ''revenue_potential'' \<mapsto> SStr ''high'']]
   \<and> length (identify_monetization_opportunities title_tool_product_body) = 3
   \<and> length (filter (\<lambda>s. s ''position'' = Some (SInt 1))
                (identify_monetization_opportunities title_tool_product_body)) = 2"
proof -
  let ?r = "identify_monetization_opportunities title_tool_product_body"
  have r: "?r = scan_lines 0 [''# Title'', ''## Best tool options'', ''This is a great product for you'']"
    by (simp only: identify_monetization_opportunities_def title_tool_product_body_lines)
  have len: "length ?r = 3"
    unfolding r scan_title_tool_product by simp
  have pos: "length (filter (\<lambda>s. s ''position'' = Some (SInt 1)) ?r) = 2"
    unfolding r scan_title_tool_product by simp
  from len have "length ?r \<noteq> length [x, y]" for x y :: spot
    by simp
  then have "?r \<noteq> [x, y]" for x y
    by metis
  with len pos show ?thesis
    by blast
qed

section \<open>Properties of the optimisation\<close>

lemma optimize_spots_total:
  "\<forall>s\<in>set spots. s ''type'' \<noteq> None \<Longrightarrow> \<exists>out. optimize_spots spots data = Inr out"
proof (induction spots)
  case Nil
  then show ?case by simp
next
  case (Cons s spots)
  then obtain ty where "s ''type'' = Some ty" by auto
  then obtain s' where "optimize_monetization_spot s data = Inr s'"
    by (simp add: optimize_monetization_spot_def Let_def)
  moreover from Cons obtain out where "optimize_spots spots data = Inr out" by auto
  ultimately show ?case by simp
qed

lemma optimize_spots_length:
  "optimize_spots spots data = Inr out \<Longrightarrow> length out = length spots"
  by (induction spots arbitrary: out) (auto split: sum.splits)

lemma optimize_spots_nth:
  "optimize_spots spots data = Inr out \<Longrightarrow> i < length spots \<Longrightarrow>
   optimize_monetization_spot (spots ! i) data = Inr (out ! i)"
proof (induction spots arbitrary: out i)
  case Nil
  then show ?case by simp
next
  case (Cons s spots)
  from Cons.prems(1) obtain s' out' where s': "optimize_monetization_spot s data = Inr s'"
    and out': "optimize_spots spots data = Inr out'" and out: "out = s' # out'"
    by (auto split: sum.splits)
  show ?case
  proof (cases i)
    case 0
    with s' out show ?thesis by simp
  next
    case (Suc j)
    with Cons.prems(2) have "j < length spots" by simp
    from Cons.IH [OF out' this] Suc out show ?thesis by simp
  qed
qed

lemma optimize_spot_display_ad:
  assumes "optimize_monetization_spot s data = Inr s'" and "s ''type'' = Some (SStr ''display_ad'')"
  shows "(get_num data ''cpm'' 5 > 10 \<longrightarrow>
            s' ''ad_size'' = Some (SStr ''premium_banner'') \<and> s' ''priority'' = Some (SStr ''high''))
       \<and> (7 < get_num data ''cpm'' 5 \<and> get_num data ''cpm'' 5 \<le> 10 \<longrightarrow>
            s' ''ad_size'' = Some (SStr ''standard_banner'') \<and> s' ''priority'' = Some (SStr ''medium''))
       \<and> (get_num data ''cpm'' 5 \<le> 7 \<longrightarrow>
            s' ''ad_size'' = Some (SStr ''text_ad'') \<and> s' ''priority'' = Some (SStr ''low''))"
  using assms by (auto simp add: optimize_monetization_spot_def Let_def)

lemma optimize_spot_affiliate_link:
  assumes "optimize_monetization_spot s data = Inr s'" and "s ''type'' = Some (SStr ''affiliate_link'')"
  shows "s' ''recommended_categories''
           = Some (SList (take 3 (get_list data ''top_affiliate_categories'' [])))
       \<and> s' ''conversion_rate'' = Some (SNum (get_num data ''affiliate_conversion'' 0.02))"
  using assms by (auto simp add: optimize_monetization_spot_def Let_def)

lemma optimize_spot_placement:
  assumes "optimize_monetization_spot s data = Inr s'"
  shows "s' ''placement''
           = Some (SStr (if get_num data ''cpm'' 5 > 8 then ''above_fold'' else ''within_content''))"
  using assms by (auto simp add: optimize_monetization_spot_def Let_def split: option.splits)

lemma optimize_spot_frame:
  assumes "optimize_monetization_spot s data = Inr s'"
    and "k \<notin> {''ad_size'', ''priority'', ''recommended_categories'', ''conversion_rate'', ''placement''}"
  shows "s' k = s k"
  using assms by (auto simp add: optimize_monetization_spot_def Let_def split: option.splits if_splits)

lemma optimize_spot_idempotent:
  assumes "optimize_monetization_spot s data = Inr s'"
  shows "optimize_monetization_spot s' data = Inr s'"
proof -
  from assms obtain ty where ty: "s ''type'' = Some ty"
    by (auto simp add: optimize_monetization_spot_def Let_def split: option.splits)
  have ty': "s' ''type'' = Some ty"
    using optimize_spot_frame [OF assms, of "''type''"] ty by simp
  show ?thesis
    using assms ty ty'
    by (auto simp add: optimize_monetization_spot_def Let_def fun_eq_iff split: if_splits)
qed

lemma optimize_spots_idempotent:
  "optimize_spots spots data = Inr out \<Longrightarrow> optimize_spots out data = Inr out"
proof (induction spots arbitrary: out)
  case Nil
  then show ?case by simp
next
  case (Cons s spots)
  from Cons.prems obtain s' out' where s': "optimize_monetization_spot s data = Inr s'"
    and out': "optimize_spots spots data = Inr out'" and out: "out = s' # out'"
    by (auto split: sum.splits)
  from optimize_spot_idempotent [OF s'] Cons.IH [OF out'] out show ?case by simp
qed

text \<open>
  C6. For every list of spots that all carry a \<open>type\<close> and every profile, the spot loop
  returns one optimized spot per input spot, where, with \<open>cpm\<close> the profile's cpm (5.0
  when the profile has none): a \<open>display_ad\<close> spot gets \<open>ad_size/priority\<close> =
  \<open>premium_banner/high\<close> when \<open>cpm > 10\<close>, \<open>standard_banner/medium\<close> when
  \<open>7 < cpm \<le> 10\<close> and \<open>text_ad/low\<close> otherwise; an \<open>affiliate_link\<close> spot gets
  \<open>recommended_categories\<close> = the first 3 of the profile's \<open>top_affiliate_categories\<close>
  and \<open>conversion_rate\<close> = the profile's \<open>affiliate_conversion\<close>; and every spot, of any
  type, gets \<open>placement\<close> = \<open>above_fold\<close> when \<open>cpm > 8\<close> and \<open>within_content\<close>
  otherwise.
\<close>

theorem optimize_spots_by_profile:
  assumes "\<forall>s\<in>set spots. s ''type'' \<noteq> None"
  shows "\<exists>out. optimize_spots spots data = Inr out \<and> length out = length spots \<and>
    (\<forall>i<length spots.
       ((spots ! i) ''type'' = Some (SStr ''display_ad'') \<longrightarrow>
          (get_num data ''cpm'' 5 > 10 \<longrightarrow>
             (out ! i) ''ad_size'' = Some (SStr ''premium_banner'')
             \<and> (out ! i) ''priority'' = Some (SStr ''high''))
          \<and> (7 < get_num data ''cpm'' 5 \<and> get_num data ''cpm'' 5 \<le> 10 \<longrightarrow>
             (out ! i) ''ad_size'' = Some (SStr ''standard_banner'')
             \<and> (out ! i) ''priority'' = Some (SStr ''medium''))
          \<and> (get_num data ''cpm'' 5 \<le> 7 \<longrightarrow>
             (out ! i) ''ad_size'' = Some (SStr ''text_ad'')
             \<and> (out ! i) ''priority'' = Some (SStr ''low'')))
       \<and> ((spots ! i) ''type'' = Some (SStr ''affiliate_link'') \<longrightarrow>
             (out ! i) ''recommended_categories''
               = Some (SList (take 3 (get_list data ''top_affiliate_categories'' [])))
             \<and> (out ! i) ''conversion_rate''
               = Some (SNum (get_num data ''affiliate_conversion'' 0.02)))
       \<and> (get_num data ''cpm'' 5 > 8 \<longrightarrow> (out ! i) ''placement'' = Some (SStr ''above_fold''))
       \<and> (get_num data ''cpm'' 5 \<le> 8 \<longrightarrow> (out ! i) ''placement'' = Some (SStr ''within_content'')))"
proof -
  from optimize_spots_total [OF assms] obtain out where out: "optimize_spots spots data = Inr out"
    by blast
  have len: "length out = length spots"
    by (rule optimize_spots_length [OF out])
  have "\<forall>i<length spots.
       ((spots ! i) ''type'' = Some (SStr ''display_ad'') \<longrightarrow>
          (get_num data ''cpm'' 5 > 10 \<longrightarrow>
             (out ! i) ''ad_size'' = Some (SStr ''premium_banner'')
             \<and> (out ! i) ''priority'' = Some (SStr ''high''))
          \<and> (7 < get_num data ''cpm'' 5 \<and> get_num data ''cpm'' 5 \<le> 10 \<longrightarrow>
             (out ! i) ''ad_size'' = Some (SStr ''standard_banner'')
             \<and> (out ! i) ''priority'' = Some (SStr ''medium''))
          \<and> (get_num data ''cpm'' 5 \<le> 7 \<longrightarrow>
             (out ! i) ''ad_size'' = Some (SStr ''text_ad'')
             \<and> (out ! i) ''priority'' = Some (SStr ''low'')))
       \<and> ((spots ! i) ''type'' = Some (SStr ''affiliate_link'') \<longrightarrow>
             (out ! i) ''recommended_categories''
               = Some (SList (take 3 (get_list data ''top_affiliate_categories'' [])))
             \<and> (out ! i) ''conversion_rate''
               = Some (SNum (get_num data ''affiliate_conversion'' 0.02)))
       \<and> (get_num data ''cpm'' 5 > 8 \<longrightarrow> (out ! i) ''placement'' = Some (SStr ''above_fold''))
       \<and> (get_num data ''cpm'' 5 \<le> 8 \<longrightarrow> (out ! i) ''placement'' = Some (SStr ''within_content''))"
  proof (intro allI impI)
    fix i assume i: "i < length spots"
    note step = optimize_spots_nth [OF out i]
    show "((spots ! i) ''type'' = Some (SStr ''display_ad'') \<longrightarrow>
          (get_num data ''cpm'' 5 > 10 \<longrightarrow>
             (out ! i) ''ad_size'' = Some (SStr ''premium_banner'')
             \<and> (out ! i) ''priority'' = Some (SStr ''high''))
          \<and> (7 < get_num data ''cpm'' 5 \<and> get_num data ''cpm'' 5 \<le> 10 \<longrightarrow>
             (out ! i) ''ad_size'' = Some (SStr ''standard_banner'')
             \<and> (out ! i) ''priority'' = Some (SStr ''medium''))
          \<and> (get_num data ''cpm'' 5 \<le> 7 \<longrightarrow>
             (out ! i) ''ad_size'' = Some (SStr ''text_ad'')
             \<and> (out ! i) ''priority'' = Some (SStr ''low'')))
       \<and> ((spots ! i) ''type'' = Some (SStr ''affiliate_link'') \<longrightarrow>
             (out ! i) ''recommended_categories''
               = Some (SList (take 3 (get_list data ''top_affiliate_categories'' [])))
             \<and> (out ! i) ''conversion_rate''
               = Some (SNum (get_num data ''affiliate_conversion'' 0.02)))
       \<and> (get_num data ''cpm'' 5 > 8 \<longrightarrow> (out ! i) ''placement'' = Some (SStr ''above_fold''))
       \<and> (get_num data ''cpm'' 5 \<le> 8 \<longrightarrow> (out ! i) ''placement'' = Some (SStr ''within_content''))"
      using optimize_spot_display_ad [OF step] optimize_spot_affiliate_link [OF step]
        optimize_spot_placement [OF step]
      by simp
  qed
  with out len show ?thesis by blast
qed

theorem optimize_spots_by_profile_witness:
  "(example_spots ! 0) ''type'' = Some (SStr ''display_ad'')
   \<and> (example_spots ! 1) ''type'' = Some (SStr ''affiliate_link'')
   \<and> (example_spots ! 2) ''type'' = Some (SStr ''comparison_table'')
   \<and> get_num usa_data ''cpm'' 5 = 12.5
   \<and> (\<exists>out. optimize_spots example_spots usa_data = Inr out \<and> length out = 3
        \<and> (out ! 0) ''ad_size'' = Some (SStr ''premium_banner'')
        \<and> (out ! 0) ''priority'' = Some (SStr ''high'')
        \<and> (out ! 1) ''recommended_categories'' = Some (SList [''tech'', ''finance'', ''health''])
        \<and> (out ! 1) ''conversion_rate'' = Some (SNum 0.035)
        \<and> (out ! 0) ''placement'' = Some (SStr ''above_fold'')
        \<and> (out ! 1) ''placement'' = Some (SStr ''above_fold'')
        \<and> (out ! 2) ''placement'' = Some (SStr ''above_fold''))"
proof -
  have h: "\<forall>s\<in>set example_spots. s ''type'' \<noteq> None"
    by (simp add: example_spots_def)
  have t0: "(example_spots ! 0) ''type'' = Some (SStr ''display_ad'')"
    and t1: "(example_spots ! 1) ''type'' = Some (SStr ''affiliate_link'')"
    and t2: "(example_spots ! 2) ''type'' = Some (SStr ''comparison_table'')"
    and len: "length example_spots = 3"
    by (simp_all add: example_spots_def)
  have cpm: "get_num usa_data ''cpm'' 5 = 12.5"
    and cats: "take 3 (get_list usa_data ''top_affiliate_categories'' []) = [''tech'', ''finance'', ''health'']"
    and conv: "get_num usa_data ''affiliate_conversion'' 0.02 = 0.035"
    by (simp_all add: get_num_def get_list_def usa_data_def)
  from optimize_spots_by_profile [OF h, of usa_data] obtain out
    where out: "optimize_spots example_spots usa_data = Inr out"
      and l: "length out = length example_spots"
      and a: "\<And>i. i < length example_spots \<Longrightarrow>
       ((example_spots ! i) ''type'' = Some (SStr ''display_ad'') \<longrightarrow>
          (get_num usa_data ''cpm'' 5 > 10 \<longrightarrow>
             (out ! i) ''ad_size'' = Some (SStr ''premium_banner'')
             \<and> (out ! i) ''priority'' = Some (SStr ''high'')))
       \<and> ((example_spots ! i) ''type'' = Some (SStr ''affiliate_link'') \<longrightarrow>
             (out ! i) ''recommended_categories''
               = Some (SList (take 3 (get_list usa_data ''top_affiliate_categories'' [])))
             \<and> (out ! i) ''conversion_rate''
               = Some (SNum (get_num usa_data ''affiliate_conversion'' 0.02)))
       \<and> (get_num usa_data ''cpm'' 5 > 8 \<longrightarrow> (out ! i) ''placement'' = Some (SStr ''above_fold''))"
    by blast
  from a [of 0] a [of 1] a [of 2] t0 t1 t2 len cpm cats conv
  have "(out ! 0) ''ad_size'' = Some (SStr ''premium_banner'')
        \<and> (out ! 0) ''priority'' = Some (SStr ''high'')
        \<and> (out ! 1) ''recommended_categories'' = Some (SList [''tech'', ''finance'', ''health''])
        \<and> (out ! 1) ''conversion_rate'' = Some (SNum 0.035)
        \<and> (out ! 0) ''placement'' = Some (SStr ''above_fold'')
        \<and> (out ! 1) ''placement'' = Some (SStr ''above_fold'')
        \<and> (out ! 2) ''placement'' = Some (SStr ''above_fold'')"
    by simp
  with out l len t0 t1 t2 cpm show ?thesis
    by auto
qed

text \<open>
  C7. For every list of spots that all carry a \<open>type\<close> and every profile, the spot loop
  returns a list of the same length, whose i-th spot has the \<open>type\<close>, \<open>position\<close>,
  \<open>context\<close> and \<open>revenue_potential\<close> of the i-th input spot; optimizing the output
  again with the same profile returns the same output.
\<close>

theorem optimize_spots_frame_idempotent:
  assumes "\<forall>s\<in>set spots. s ''type'' \<noteq> None"
  shows "\<exists>out. optimize_spots spots data = Inr out \<and> length out = length spots
    \<and> (\<forall>i<length spots.
          (out ! i) ''type'' = (spots ! i) ''type''
          \<and> (out ! i) ''position'' = (spots ! i) ''position''
          \<and> (out ! i) ''context'' = (spots ! i) ''context''
          \<and> (out ! i) ''revenue_potential'' = (spots ! i) ''revenue_potential'')
    \<and> optimize_spots out data = Inr out"
proof -
  from optimize_spots_total [OF assms] obtain out where out: "optimize_spots spots data = Inr out"
    by blast
  have len: "length out = length spots"
    by (rule optimize_spots_length [OF out])
  have frame: "(out ! i) ''type'' = (spots ! i) ''type''
          \<and> (out ! i) ''position'' = (spots ! i) ''position''
          \<and> (out ! i) ''context'' = (spots ! i) ''context''
          \<and> (out ! i) ''revenue_potential'' = (spots ! i) ''revenue_potential''"
    if i: "i < length spots" for i
  proof -
    note step = optimize_spots_nth [OF out i]
    show ?thesis
      using optimize_spot_frame [OF step, of "''type''"] optimize_spot_frame [OF step, of "''position''"]
        optimize_spot_frame [OF step, of "''context''"]
        optimize_spot_frame [OF step, of "''revenue_potential''"]
      by simp
  qed
  have idem: "optimize_spots out data = Inr out"
    by (rule optimize_spots_idempotent [OF out])
  from out len frame idem show ?thesis by blast
qed

theorem optimize_spots_frame_idempotent_witness:
  "(example_spots ! 0) ''type'' = Some (SStr ''display_ad'')
   \<and> (example_spots ! 1) ''type'' = Some (SStr ''affiliate_link'')
   \<and> (example_spots ! 2) ''type'' = Some (SStr ''comparison_table'')
   \<and> (\<exists>out. optimize_spots example_spots usa_data = Inr out \<and> length out = 3
        \<and> (out ! 0) ''type'' = Some (SStr ''display_ad'')
        \<and> (out ! 0) ''position'' = Some (SInt 1)
        \<and> (out ! 1) ''context'' = Some (SStr ''product_mention'')
        \<and> (out ! 2) ''revenue_potential'' = Some (SStr ''very_high'')
        \<and> optimize_spots out usa_data = Inr out)"
proof -
  have h: "\<forall>s\<in>set example_spots. s ''type'' \<noteq> None"
    by (simp add: example_spots_def)
  have t0: "(example_spots ! 0) ''type'' = Some (SStr ''display_ad'')"
    and t1: "(example_spots ! 1) ''type'' = Some (SStr ''affiliate_link'')"
    and t2: "(example_spots ! 2) ''type'' = Some (SStr ''comparison_table'')"
    and p0: "(example_spots ! 0) ''position'' = Some (SInt 1)"
    and c1: "(example_spots ! 1) ''context'' = Some (SStr ''product_mention'')"
    and r2: "(example_spots ! 2) ''revenue_potential'' = Some (SStr ''very_high'')"
    and len: "length example_spots = 3"
    by (simp_all add: example_spots_def)
  from optimize_spots_frame_idempotent [OF h, of usa_data] obtain out
    where out: "optimize_spots example_spots usa_data = Inr out"
      and l: "length out = length example_spots"
      and a: "\<And>i. i < length example_spots \<Longrightarrow>
          (out ! i) ''type'' = (example_spots ! i) ''type''
          \<and> (out ! i) ''position'' = (example_spots ! i) ''position''
          \<and> (out ! i) ''context'' = (example_spots ! i) ''context''
          \<and> (out ! i) ''revenue_potential'' = (example_spots ! i) ''revenue_potential''"
      and idem: "optimize_spots out usa_data = Inr out"
    by blast
  from a [of 0] a [of 1] a [of 2] t0 p0 c1 r2 len
  have "(out ! 0) ''type'' = Some (SStr ''display_ad'')
        \<and> (out ! 0) ''position'' = Some (SInt 1)
        \<and> (out ! 1) ''context'' = Some (SStr ''product_mention'')
        \<and> (out ! 2) ''revenue_potential'' = Some (SStr ''very_high'')"
    by simp
  with out l len t0 t1 t2 idem show ?thesis
    by auto
qed

section \<open>Properties of the prediction, of \<open>add_monetization\<close> and of the insights\<close>




lemma py_round_exact: "py_round (of_int n / 100) 2 = of_int n / 100"
  by (simp add: py_round_def round_half_even_def)

lemma sum_builtin: "sum_monthly_potential country_revenue_data = Inr 68500"
  by (simp add: country_revenue_data_def item_num_def usa_data_def germany_data_def uk_data_def
      canada_data_def singapore_data_def australia_data_def japan_data_def korea_data_def)

lemma high_builtin:
  "countries_where
     (\<lambda>data. case item_num data ''cpm'' of Inl e \<Rightarrow> Inl e | Inr v \<Rightarrow> Inr (v > 8.0))
     country_revenue_data = Inl KeyError"
  by (simp add: country_revenue_data_def item_num_def usa_data_def germany_data_def uk_data_def
      canada_data_def singapore_data_def australia_data_def japan_data_def korea_data_def)

lemma insights_builtin:
  "get_revenue_insights country_revenue_data tops = Inl (if tops = [] then IndexError else KeyError)"
  by (cases tops) (simp_all add: get_revenue_insights_def sum_builtin high_builtin)

lemma scores_builtin:
  "revenue_score usa_data = 9.15" "revenue_score germany_data = 7.555"
  "revenue_score uk_data = 7.515" "revenue_score canada_data = 7.225"
  "revenue_score singapore_data = 6.755" "revenue_score australia_data = 4.425"
  "revenue_score japan_data = 6.485" "revenue_score korea_data = 5.695"
  by (simp_all add: revenue_score_def get_num_def usa_data_def germany_data_def uk_data_def
      canada_data_def singapore_data_def australia_data_def japan_data_def korea_data_def)

lemma country_scores_builtin:
  "country_scores country_revenue_data =
     [(''USA'', 9.15), (''Germany'', 7.555), (''UK'', 7.515), (''Canada'', 7.225),
      (''Singapore'', 6.755), (''Australia'', 4.425), (''Japan'', 6.485), (''Korea'', 5.695)]"
  by (simp add: country_scores_def country_revenue_data_def scores_builtin)

lemma rank_builtin:
  "rank_countries_by_revenue country_revenue_data =
     [''USA'', ''Germany'', ''UK'', ''Canada'', ''Singapore'', ''Japan'', ''Korea'', ''Australia'']"
  by (simp add: rank_countries_by_revenue_def country_scores_builtin Let_def sorted_reverse_def
      score_lookup_def)

lemma prediction_keys:
  "calculate_revenue_prediction c data ''monthly_ad_revenue''
     = Some (py_round (10000 * get_num data ''cpm'' 5 / 1000) 2)"
  "calculate_revenue_prediction c data ''monthly_affiliate_revenue''
     = Some (py_round (10000 * get_num data ''ad_click_rate'' 0.05
                         * get_num data ''affiliate_conversion'' 0.02 * 50) 2)"
  "calculate_revenue_prediction c data ''total_monthly_revenue''
     = Some (py_round (10000 * get_num data ''cpm'' 5 / 1000
                       + 10000 * get_num data ''ad_click_rate'' 0.05
                           * get_num data ''affiliate_conversion'' 0.02 * 50) 2)"
  "calculate_revenue_prediction c data ''estimated_views'' = Some 10000"
  "calculate_revenue_prediction c data ''cpm'' = Some (get_num data ''cpm'' 5)"
  by (simp_all add: calculate_revenue_prediction_def Let_def)



lemma add_monetization_returns: "\<exists>m. add_monetization tbl c country = Inr m"
  by (simp add: add_monetization_def split: sum.split)

lemma lookup_country_missing: "map_of tbl country = None \<Longrightarrow> lookup_country tbl country = empty_data"
  by (simp add: lookup_country_def)

lemma empty_data_defaults:
  "get_num empty_data k d = d" "get_list empty_data k l = l"
  by (simp_all add: get_num_def get_list_def empty_data_def)

lemma prediction_empty_data:
  "calculate_revenue_prediction c empty_data ''cpm'' = Some 5"
  "calculate_revenue_prediction c empty_data ''monthly_ad_revenue'' = Some 50"
  "calculate_revenue_prediction c empty_data ''monthly_affiliate_revenue'' = Some 500"
  "calculate_revenue_prediction c empty_data ''total_monthly_revenue'' = Some 550"
  by (simp_all only: prediction_keys empty_data_defaults)
     (simp_all add: py_round_def round_half_even_def)

lemma optimize_spot_empty_data:
  assumes "s ''type'' = Some ty"
  shows "\<exists>s'. optimize_monetization_spot s empty_data = Inr s'
          \<and> s' ''placement'' = Some (SStr ''within_content'')
          \<and> (ty = SStr ''display_ad'' \<longrightarrow>
                s' ''ad_size'' = Some (SStr ''text_ad'') \<and> s' ''priority'' = Some (SStr ''low''))
          \<and> (ty = SStr ''affiliate_link'' \<longrightarrow>
                s' ''recommended_categories'' = Some (SList [])
                \<and> s' ''conversion_rate'' = Some (SNum 0.02))"
  using assms by (simp add: optimize_monetization_spot_def Let_def empty_data_defaults)

lemma add_monetization_typed_spots:
  assumes "case monetization_spots c of None \<Rightarrow> True | Some spots \<Rightarrow> list_all (\<lambda>s. s ''type'' \<noteq> None) spots"
  shows "\<exists>m. add_monetization tbl c country = Inr m
          \<and> revenue_prediction m = Some (calculate_revenue_prediction c (lookup_country tbl country))
          \<and> premium_keywords m = Some (get_list (lookup_country tbl country) ''premium_keywords'' [])
          \<and> recommended_ad_networks m = Some (get_list (lookup_country tbl country) ''ad_networks'' [])"
proof (cases "monetization_spots c")
  case None
  then show ?thesis
    by (simp add: add_monetization_def add_monetization_try_def Let_def)
next
  case (Some spots)
  with assms have "\<forall>s\<in>set spots. s ''type'' \<noteq> None"
    by (simp add: list_all_iff)
  from optimize_spots_total [OF this] obtain out
    where "optimize_spots spots (lookup_country tbl country) = Inr out"
    by blast
  with Some show ?thesis
    by (simp add: add_monetization_def add_monetization_try_def Let_def)
qed

lemma optimize_spot_error:
  "optimize_monetization_spot s data = Inl e \<Longrightarrow> e = KeyError"
  by (auto simp add: optimize_monetization_spot_def Let_def split: option.splits)

lemma optimize_spots_untyped:
  "\<exists>s\<in>set spots. s ''type'' = None \<Longrightarrow> optimize_spots spots data = Inl KeyError"
proof (induction spots)
  case Nil
  then show ?case by simp
next
  case (Cons s spots)
  show ?case
  proof (cases "s ''type''")
    case None
    then show ?thesis by (simp add: optimize_monetization_spot_def Let_def)
  next
    case (Some ty)
    with Cons.prems have "\<exists>s\<in>set spots. s ''type'' = None" by auto
    from Cons.IH [OF this] show ?thesis
      by (auto split: sum.split dest: optimize_spot_error)
  qed
qed

lemma add_monetization_untyped_spot:
  assumes "monetization_spots c = Some spots" and "\<exists>s\<in>set spots. s ''type'' = None"
  shows "add_monetization tbl c country = Inr c"
  using assms(1) optimize_spots_untyped [OF assms(2)]
  by (simp add: add_monetization_def add_monetization_try_def Let_def)

text \<open>
  C9. \<open>add_monetization\<close> never raises: for every table, content record and country it
  returns a result (when a spot has no \<open>type\<close> key, the \<open>KeyError\<close> is caught and the
  content is returned unchanged). When the country has no profile the empty profile is
  used, and the defaults \<open>cpm = 5.0\<close>, \<open>ad_click_rate = 0.05\<close> and
  \<open>affiliate_conversion = 0.02\<close> stand in: the prediction is 50 + 500 = 550, a
  \<open>display_ad\<close> becomes a low-priority \<open>text_ad\<close>, an \<open>affiliate_link\<close> gets no
  categories and conversion rate 0.02, every spot is placed \<open>within_content\<close>, and the
  result of \<open>add_monetization\<close> carries that prediction and empty keyword and network lists.
\<close>

theorem add_monetization_never_raises:
  "(\<exists>m. add_monetization tbl c country = Inr m)
   \<and> (monetization_spots c = Some spots \<and> list_ex (\<lambda>s. s ''type'' = None) spots \<longrightarrow>
        add_monetization tbl c country = Inr c)
   \<and> (map_of tbl country = None \<longrightarrow>
        calculate_revenue_prediction c (lookup_country tbl country) ''cpm'' = Some 5
        \<and> calculate_revenue_prediction c (lookup_country tbl country) ''monthly_ad_revenue'' = Some 50
        \<and> calculate_revenue_prediction c (lookup_country tbl country) ''monthly_affiliate_revenue''
            = Some 500
        \<and> calculate_revenue_prediction c (lookup_country tbl country) ''total_monthly_revenue''
            = Some 550
        \<and> (\<forall>s ty. s ''type'' = Some ty \<longrightarrow>
             (\<exists>s'. optimize_monetization_spot s (lookup_country tbl country) = Inr s'
                \<and> s' ''placement'' = Some (SStr ''within_content'')
                \<and> (ty = SStr ''display_ad'' \<longrightarrow>
                      s' ''ad_size'' = Some (SStr ''text_ad'') \<and> s' ''priority'' = Some (SStr ''low''))
                \<and> (ty = SStr ''affiliate_link'' \<longrightarrow>
                      s' ''recommended_categories'' = Some (SList [])
                      \<and> s' ''conversion_rate'' = Some (SNum 0.02))))
        \<and> ((case monetization_spots c of None \<Rightarrow> True
               | Some spots \<Rightarrow> list_all (\<lambda>s. s ''type'' \<noteq> None) spots) \<longrightarrow>
             (\<exists>m. add_monetization tbl c country = Inr m
                \<and> revenue_prediction m = Some (calculate_revenue_prediction c empty_data)
                \<and> premium_keywords m = Some []
                \<and> recommended_ad_networks m = Some [])))"
proof (intro conjI impI allI)
  show "\<exists>m. add_monetization tbl c country = Inr m"
    by (rule add_monetization_returns)
next
  assume "monetization_spots c = Some spots \<and> list_ex (\<lambda>s. s ''type'' = None) spots"
  then show "add_monetization tbl c country = Inr c"
    by (auto simp add: list_ex_iff intro: add_monetization_untyped_spot)
next
  assume "map_of tbl country = None"
  then have e: "lookup_country tbl country = empty_data"
    by (rule lookup_country_missing)
  show "calculate_revenue_prediction c (lookup_country tbl country) ''cpm'' = Some 5"
    "calculate_revenue_prediction c (lookup_country tbl country) ''monthly_ad_revenue'' = Some 50"
    "calculate_revenue_prediction c (lookup_country tbl country) ''monthly_affiliate_revenue'' = Some 500"
    "calculate_revenue_prediction c (lookup_country tbl country) ''total_monthly_revenue'' = Some 550"
    unfolding e by (rule prediction_empty_data)+
  {
    fix s :: spot and ty assume st: "s ''type'' = Some ty"
    show "\<exists>s'. optimize_monetization_spot s (lookup_country tbl country) = Inr s'
                \<and> s' ''placement'' = Some (SStr ''within_content'')
                \<and> (ty = SStr ''display_ad'' \<longrightarrow>
                      s' ''ad_size'' = Some (SStr ''text_ad'') \<and> s' ''priority'' = Some (SStr ''low''))
                \<and> (ty = SStr ''affiliate_link'' \<longrightarrow>
                      s' ''recommended_categories'' = Some (SList [])
                      \<and> s' ''conversion_rate'' = Some (SNum 0.02))"
      unfolding e using st by (rule optimize_spot_empty_data [of s ty])
  }
  {
    assume "case monetization_spots c of None \<Rightarrow> True
               | Some spots \<Rightarrow> list_all (\<lambda>s. s ''type'' \<noteq> None) spots"
    from add_monetization_typed_spots [OF this, of tbl country]
    show "\<exists>m. add_monetization tbl c country = Inr m
                \<and> revenue_prediction m = Some (calculate_revenue_prediction c empty_data)
                \<and> premium_keywords m = Some []
                \<and> recommended_ad_networks m = Some []"
      unfolding e by (simp add: empty_data_defaults)
  }
qed

theorem add_monetization_never_raises_witness:
  "map_of country_revenue_data ''Z'' = None
   \<and> monetization_spots example_content = Some example_spots
   \<and> (example_spots ! 0) ''type'' = Some (SStr ''display_ad'')
   \<and> (example_spots ! 1) ''type'' = Some (SStr ''affiliate_link'')
   \<and> monetization_spots untyped_spot_content = Some [[''position'' \<mapsto> SInt 0]]
   \<and> add_monetization country_revenue_data untyped_spot_content ''Z'' = Inr untyped_spot_content
   \<and> calculate_revenue_prediction example_content (lookup_country country_revenue_data ''Z'') ''cpm''
        = Some 5
   \<and> calculate_revenue_prediction example_content (lookup_country country_revenue_data ''Z'')
        ''total_monthly_revenue'' = Some 550
   \<and> (\<exists>s'. optimize_monetization_spot (example_spots ! 0) (lookup_country country_revenue_data ''Z'')
              = Inr s'
          \<and> s' ''placement'' = Some (SStr ''within_content'')
          \<and> s' ''ad_size'' = Some (SStr ''text_ad'') \<and> s' ''priority'' = Some (SStr ''low''))
   \<and> (\<exists>s'. optimize_monetization_spot (example_spots ! 1) (lookup_country country_revenue_data ''Z'')
              = Inr s'
          \<and> s' ''recommended_categories'' = Some (SList [])
          \<and> s' ''conversion_rate'' = Some (SNum 0.02))
   \<and> (\<exists>m. add_monetization country_revenue_data example_content ''Z'' = Inr m
          \<and> revenue_prediction m = Some (calculate_revenue_prediction example_content empty_data)
          \<and> premium_keywords m = Some []
          \<and> recommended_ad_networks m = Some [])"
proof -
  have z: "map_of country_revenue_data ''Z'' = None"
    by (simp add: country_revenue_data_def)
  have sp: "monetization_spots example_content = Some example_spots"
    by (simp add: example_content_def)
  have t0: "(example_spots ! 0) ''type'' = Some (SStr ''display_ad'')"
    and t1: "(example_spots ! 1) ''type'' = Some (SStr ''affiliate_link'')"
    by (simp_all add: example_spots_def)
  have typed: "case monetization_spots example_content of None \<Rightarrow> True
     | Some spots \<Rightarrow> list_all (\<lambda>s. s ''type'' \<noteq> None) spots"
    by (simp add: sp example_spots_def)
  have u: "monetization_spots untyped_spot_content = Some [[''position'' \<mapsto> SInt 0]]"
    by (simp add: untyped_spot_content_def)
  have ux: "list_ex (\<lambda>s. s ''type'' = None) [[''position'' \<mapsto> SInt (0::int)]]"
    by simp
  note expl = add_monetization_never_raises
    [of country_revenue_data example_content "''Z''" example_spots]
  note untp = add_monetization_never_raises
    [of country_revenue_data untyped_spot_content "''Z''" "[[''position'' \<mapsto> SInt 0]]"]
  from untp u ux
  have a: "add_monetization country_revenue_data untyped_spot_content ''Z'' = Inr untyped_spot_content"
    by blast
  from expl z have p: "calculate_revenue_prediction example_content
        (lookup_country country_revenue_data ''Z'') ''cpm'' = Some 5"
    "calculate_revenue_prediction example_content
        (lookup_country country_revenue_data ''Z'') ''total_monthly_revenue'' = Some 550"
    by blast+
  from expl z have sall: "\<And>s ty. s ''type'' = Some ty \<Longrightarrow>
       (\<exists>s'. optimize_monetization_spot s (lookup_country country_revenue_data ''Z'') = Inr s'
                \<and> s' ''placement'' = Some (SStr ''within_content'')
                \<and> (ty = SStr ''display_ad'' \<longrightarrow>
                      s' ''ad_size'' = Some (SStr ''text_ad'') \<and> s' ''priority'' = Some (SStr ''low''))
                \<and> (ty = SStr ''affiliate_link'' \<longrightarrow>
                      s' ''recommended_categories'' = Some (SList [])
                      \<and> s' ''conversion_rate'' = Some (SNum 0.02)))"
    by blast
  from sall [of "example_spots ! 0" "SStr ''display_ad''"] t0 have s0: "\<exists>s'. optimize_monetization_spot (example_spots ! 0)
              (lookup_country country_revenue_data ''Z'') = Inr s'
          \<and> s' ''placement'' = Some (SStr ''within_content'')
          \<and> s' ''ad_size'' = Some (SStr ''text_ad'') \<and> s' ''priority'' = Some (SStr ''low'')"
    by blast
  from sall [of "example_spots ! 1" "SStr ''affiliate_link''"] t1 have s1: "\<exists>s'. optimize_monetization_spot (example_spots ! 1)
              (lookup_country country_revenue_data ''Z'') = Inr s'
          \<and> s' ''recommended_categories'' = Some (SList [])
          \<and> s' ''conversion_rate'' = Some (SNum 0.02)"
    by blast
  from expl z typed have m: "\<exists>m. add_monetization country_revenue_data example_content ''Z'' = Inr m
          \<and> revenue_prediction m = Some (calculate_revenue_prediction example_content empty_data)
          \<and> premium_keywords m = Some []
          \<and> recommended_ad_networks m = Some []"
    by blast
  from z sp t0 t1 u a p s0 s1 m show ?thesis
    by (intro conjI)
qed

text \<open>
  C10. With the built-in country table every call of \<open>get_revenue_insights\<close> raises
  \<open>KeyError\<close>: the Australia record has the key \<open>cmp\<close> and no key \<open>cpm\<close>, and the
  \<open>high_cpm_countries\<close> comprehension evaluates \<open>data["cpm"]\<close> for every country. (A
  call with an empty \<open>top_countries\<close> would raise \<open>IndexError\<close> first; the ranking of the
  built-in table is never empty.) In the ranking score the lookup default makes
  Australia's cpm term 0, so Australia scores 4.425 and is ranked last.
\<close>

theorem get_revenue_insights_builtin_KeyError:
  "get_revenue_insights country_revenue_data (rank_countries_by_revenue country_revenue_data)
     = Inl KeyError
   \<and> (\<forall>top_countries. get_revenue_insights country_revenue_data top_countries
         = Inl (if top_countries = [] then IndexError else KeyError))
   \<and> nums australia_data ''cpm'' = None
   \<and> nums australia_data ''cmp'' = Some 7.8
   \<and> item_num australia_data ''cpm'' = Inl KeyError
   \<and> get_num australia_data ''cpm'' 0 * 0.3 = 0
   \<and> revenue_score australia_data = 4.425
   \<and> rank_countries_by_revenue country_revenue_data
       = [''USA'', ''Germany'', ''UK'', ''Canada'', ''Singapore'', ''Japan'', ''Korea'', ''Australia'']"
proof (intro conjI allI)
  show "get_revenue_insights country_revenue_data (rank_countries_by_revenue country_revenue_data)
     = Inl KeyError"
    by (simp add: insights_builtin rank_builtin)
  show "get_revenue_insights country_revenue_data top_countries
         = Inl (if top_countries = [] then IndexError else KeyError)" for top_countries
    by (rule insights_builtin)
  show "nums australia_data ''cpm'' = None" "nums australia_data ''cmp'' = Some 7.8"
    "item_num australia_data ''cpm'' = Inl KeyError" "get_num australia_data ''cpm'' 0 * 0.3 = 0"
    by (simp_all add: australia_data_def item_num_def get_num_def)
  show "revenue_score australia_data = 4.425"
    by (rule scores_builtin)
  show "rank_countries_by_revenue country_revenue_data
       = [''USA'', ''Germany'', ''UK'', ''Canada'', ''Singapore'', ''Japan'', ''Korea'', ''Australia'']"
    by (rule rank_builtin)
qed

section \<open>Properties of the pipeline\<close>






























end
